theory Spec2Isabelle
  imports Complex_Main
begin

section \<open>The Control Suite environment wrapper of the tutorial notebook\<close>

text \<open>
  The notebook \<^verbatim>\<open>tutorials/2. Adding an Environment.ipynb\<close> defines the class
  \<^verbatim>\<open>ControlSuiteEnvironment\<close>: its constructor and the four methods
  \<^verbatim>\<open>_update_state\<close>, \<^verbatim>\<open>_take_action\<close>, \<^verbatim>\<open>_restart_environment_episode\<close> and
  \<^verbatim>\<open>get_rendered_image\<close>. The object is a record that every method takes and returns;
  a method that raises returns the exception together with the object as the raise left it.
  The wrapped simulator is a record of functions over its own state type \<open>'s\<close>.
\<close>

subsection \<open>Python and numpy values\<close>

datatype exn = ValueError | KeyError | IndexError | AttributeError | OtherError string

text \<open>
  A sub-observation is a Python number or a numpy array, the latter given by its shape and
  its elements in row-major order.
\<close>

datatype py_value = PyScalar real | NDArray "nat list" "real list"

text \<open>\<^verbatim>\<open>isinstance(x, np.ndarray) and len(x.shape) == 1\<close>\<close>

fun is_1d_ndarray :: "py_value \<Rightarrow> bool" where
  "is_1d_ndarray (PyScalar v) = False"
| "is_1d_ndarray (NDArray s d) = (length s = 1)"

text \<open>\<^verbatim>\<open>np.array([x])\<close>: one more leading axis, of length 1.\<close>

fun np_array_singleton :: "py_value \<Rightarrow> py_value" where
  "np_array_singleton (PyScalar v) = NDArray [1] [v]"
| "np_array_singleton (NDArray s d) = NDArray (1 # s) d"

text \<open>
  \<^verbatim>\<open>np.concatenate((a, b))\<close> joins along the first axis. numpy raises ValueError for a
  zero-dimensional operand, for operands of different numbers of dimensions, and for operands
  whose remaining axes differ.
\<close>

fun np_concatenate :: "py_value \<Rightarrow> py_value \<Rightarrow> exn + py_value" where
  "np_concatenate (NDArray (n # r1) d1) (NDArray (m # r2) d2) =
     (if r1 = r2 then Inr (NDArray ((n + m) # r1) (d1 @ d2)) else Inl ValueError)"
| "np_concatenate a b = Inl ValueError"

text \<open>\<^verbatim>\<open>str(i)\<close> of a non-negative integer, and \<^verbatim>\<open>"{}_{}".format(name, i)\<close>.\<close>

definition digit :: "nat \<Rightarrow> char" where
  "digit d = ''0123456789'' ! d"

fun str_nat :: "nat \<Rightarrow> string" where
  "str_nat n = (if n < 10 then [digit n] else str_nat (n div 10) @ [digit (n mod 10)])"

definition format_name :: "string \<Rightarrow> nat \<Rightarrow> string" where
  "format_name name i = name @ ''_'' @ str_nat i"

text \<open>\<^verbatim>\<open>s.split(sep)\<close> for a one-character separator.\<close>

fun split_str :: "char \<Rightarrow> string \<Rightarrow> string list" where
  "split_str sep [] = [[]]"
| "split_str sep (c # cs) =
     (if c = sep then [] # split_str sep cs
      else (case split_str sep cs of [] \<Rightarrow> [[c]] | p # ps \<Rightarrow> (c # p) # ps))"

subsection \<open>The simulator's interface\<close>

text \<open>
  An array spec has a shape; a bounded array spec adds the minimum and the maximum. A time
  step carries the observation dictionary in its iteration order, its \<^verbatim>\<open>reward\<close> (field
  \<open>ts_reward\<close>, None on the first step of an episode) and the value that its method
  \<^verbatim>\<open>last()\<close> returns (field \<open>ts_last\<close>).
\<close>

record array_spec =
  shape :: "nat list"

record bounded_array_spec = array_spec +
  minimum :: "real list"
  maximum :: "real list"

record time_step =
  observation :: "(string \<times> py_value) list"
  ts_reward :: "real option"
  ts_last :: bool

text \<open>
  The methods of \<^verbatim>\<open>self.env\<close> that the wrapper calls. \<^verbatim>\<open>step\<close> and \<^verbatim>\<open>reset\<close> return
  a time step or raise, and change the simulator in both cases.
\<close>

record 's simulator =
  observation_spec :: "'s \<Rightarrow> (string \<times> array_spec) list"
  action_spec :: "'s \<Rightarrow> bounded_array_spec"
  step :: "'s \<Rightarrow> real list \<Rightarrow> (exn + time_step) \<times> 's"
  reset :: "'s \<Rightarrow> (exn + time_step) \<times> 's"
  physics_render :: "'s \<Rightarrow> nat \<Rightarrow> exn + py_value"

subsection \<open>The framework's spaces\<close>

text \<open>
  The space classes of \<^verbatim>\<open>rl_coach.spaces\<close> are containers of their constructor's
  arguments. \<open>OtherActionSpace\<close> stands for an action space of any other class.
\<close>

datatype observation_space =
  ImageObservationSpace "nat list" int
| VectorObservationSpace nat "string list"

record box =
  box_shape :: nat
  low :: "real list"
  high :: "real list"

datatype action_space = BoxActionSpace box | OtherActionSpace

text \<open>
  \<^verbatim>\<open>np.clip(a, a_min, a_max)\<close> on one-dimensional arrays. numpy broadcasts the three arrays
  to one length: an array of length 1 is repeated, and two lengths that differ and are both
  not 1 raise ValueError. Component \<open>i\<close> of the result is component \<open>i\<close> of \<open>a\<close> raised to
  the one of \<open>a_min\<close> and then lowered to the one of \<open>a_max\<close>.
\<close>

definition broadcast_length :: "nat \<Rightarrow> nat \<Rightarrow> nat option" where
  "broadcast_length m n =
     (if m = n \<or> n = 1 then Some m else if m = 1 then Some n else None)"

definition broadcast_nth :: "real list \<Rightarrow> nat \<Rightarrow> real" where
  "broadcast_nth xs i = (if length xs = 1 then xs ! 0 else xs ! i)"

definition np_clip :: "real list \<Rightarrow> real list \<Rightarrow> real list \<Rightarrow> exn + real list" where
  "np_clip a a_min a_max =
     (case broadcast_length (length a) (length a_min) of
        None \<Rightarrow> Inl ValueError
      | Some m \<Rightarrow>
     (case broadcast_length m (length a_max) of
        None \<Rightarrow> Inl ValueError
      | Some n \<Rightarrow>
          Inr (map (\<lambda>i. min (max (broadcast_nth a i) (broadcast_nth a_min i))
                             (broadcast_nth a_max i)) [0 ..< n])))"

text \<open>
  Modelled from the spec: \<^verbatim>\<open>BoxActionSpace.clip_action_to_space\<close> lives in
  \<^verbatim>\<open>rl_coach/spaces.py\<close>, which is not among the sources. The action is clipped into the
  space's bounds, with numpy's \<^verbatim>\<open>clip\<close> between the low and the high bound.
\<close>

definition clip_action_to_space :: "box \<Rightarrow> real list \<Rightarrow> exn + real list" where
  "clip_action_to_space b action = np_clip action (low b) (high b)"

subsection \<open>The wrapper object\<close>

text \<open>
  The attributes that the base class constructor has set when the body of \<^verbatim>\<open>__init__\<close>
  starts, and the attributes that the wrapper adds. An attribute that may hold None is an
  option; \<open>done_flag\<close> is the attribute \<^verbatim>\<open>done\<close>.
\<close>

record environment =
  env_id :: string
  seed :: "int option"
  last_result :: "time_step option"
  state :: "string \<rightharpoonup> py_value"
  reward :: "real option"
  done_flag :: "bool option"

record 's wrapper = environment +
  env :: 's
  state_space :: "string \<rightharpoonup> observation_space"
  action_space :: action_space
  pixels :: "py_value option"
  measurements :: "py_value option"

subsection \<open>\<^verbatim>\<open>__init__\<close>\<close>

text \<open>
  The loop over \<^verbatim>\<open>self.env.observation_spec().items()\<close>, with the two accumulators
  \<^verbatim>\<open>measurements_space_size\<close> and \<^verbatim>\<open>measurements_names\<close>.
\<close>

fun measurements_loop :: "(string \<times> array_spec) list \<Rightarrow> nat \<times> string list \<Rightarrow> nat \<times> string list" where
  "measurements_loop [] acc = acc"
| "measurements_loop ((observation_space_name, observation_space) # rest)
       (measurements_space_size, measurements_names) =
     (if length (shape observation_space) = 0 then
        measurements_loop rest
          (measurements_space_size + 1, measurements_names @ [observation_space_name])
      else if length (shape observation_space) = 1 then
        measurements_loop rest
          (measurements_space_size + shape observation_space ! 0,
           measurements_names @
             map (format_name observation_space_name) [0 ..< shape observation_space ! 0])
      else measurements_loop rest (measurements_space_size, measurements_names))"

text \<open>
  The constructor. \<open>suite_load\<close> and \<open>pixels_Wrapper\<close> are the two calls into the simulator
  library that produce the wrapped simulator; \<open>reset_internal_state\<close> is the method of the
  base class that the last line calls. The three are not defined in the notebook and are
  parameters. \<^verbatim>\<open>np.random.seed\<close> raises ValueError for a seed outside \<open>0 .. 2^32 - 1\<close>; the
  state of the two global random generators is not part of the object.
\<close>

definition init ::
  "'s simulator \<Rightarrow> (string \<Rightarrow> string \<Rightarrow> exn + 's) \<Rightarrow> ('s \<Rightarrow> bool \<Rightarrow> exn + 's) \<Rightarrow>
   ('s wrapper \<Rightarrow> bool \<Rightarrow> exn + 's wrapper) \<Rightarrow> environment \<Rightarrow> exn + 's wrapper" where
  "init sim suite_load pixels_Wrapper reset_internal_state self =
     (case split_str CHR '':'' (env_id self) of
        [domain_name, task_name] \<Rightarrow>
          (case suite_load domain_name task_name of
             Inl e \<Rightarrow> Inl e
           | Inr e0 \<Rightarrow>
          (case pixels_Wrapper e0 False of
             Inl e \<Rightarrow> Inl e
           | Inr e1 \<Rightarrow>
          if (case seed self of None \<Rightarrow> False | Some s \<Rightarrow> s < 0 \<or> 2 ^ 32 \<le> s)
          then Inl ValueError
          else
          (case map_of (observation_spec sim e1) ''pixels'' of
             None \<Rightarrow> Inl KeyError
           | Some pixels_spec \<Rightarrow>
          (case measurements_loop (observation_spec sim e1) (0, []) of
             (measurements_space_size, measurements_names) \<Rightarrow>
          (case shape (action_spec sim e1) of
             [] \<Rightarrow> Inl IndexError
           | n # _ \<Rightarrow>
               reset_internal_state
                 \<lparr> env_id = env_id self, seed = seed self, last_result = last_result self,
                   state = state self, reward = reward self, done_flag = done_flag self,
                   env = e1,
                   state_space =
                     [''pixels'' \<mapsto> ImageObservationSpace (shape pixels_spec) 255,
                      ''measurements'' \<mapsto>
                        VectorObservationSpace measurements_space_size measurements_names],
                   action_space =
                     BoxActionSpace \<lparr> box_shape = n, low = minimum (action_spec sim e1),
                                      high = maximum (action_spec sim e1) \<rparr>,
                   pixels = None, measurements = None \<rparr>
                 True)))))
      | _ \<Rightarrow> Inl ValueError)"

subsection \<open>\<^verbatim>\<open>_update_state\<close>\<close>

text \<open>
  The loop over \<^verbatim>\<open>self.last_result.observation.values()\<close>. It returns the value of
  \<^verbatim>\<open>self.measurements\<close> when it ends, normally or by the exception of a concatenation.
\<close>

fun concatenate_loop :: "py_value list \<Rightarrow> py_value \<Rightarrow> (exn + unit) \<times> py_value" where
  "concatenate_loop [] m = (Inr (), m)"
| "concatenate_loop (sub_observation # rest) m =
     (case (if is_1d_ndarray sub_observation
            then np_concatenate m sub_observation
            else np_concatenate m (np_array_singleton sub_observation)) of
        Inl e \<Rightarrow> (Inl e, m)
      | Inr m' \<Rightarrow> concatenate_loop rest m')"

definition update_state :: "'s wrapper \<Rightarrow> (exn + unit) \<times> 's wrapper" where
  "update_state self0 =
     (let self1 = self0\<lparr>state := Map.empty\<rparr> in
      case last_result self1 of
        None \<Rightarrow> (Inl AttributeError, self1)
      | Some r \<Rightarrow>
      (case map_of (observation r) ''pixels'' of
        None \<Rightarrow> (Inl KeyError, self1)
      | Some px \<Rightarrow>
         let self2 = self1\<lparr>pixels := Some px\<rparr>;
             self3 = self2\<lparr>state := (state self2)(''pixels'' \<mapsto> px)\<rparr>
         in
         (case concatenate_loop (map snd (observation r)) (NDArray [0] []) of
            (Inl e, m) \<Rightarrow> (Inl e, self3\<lparr>measurements := Some m\<rparr>)
          | (Inr u, m) \<Rightarrow>
              let self4 = self3\<lparr>measurements := Some m\<rparr>;
                  self5 = self4\<lparr>state := (state self4)(''measurements'' \<mapsto> m)\<rparr>;
                  self6 = self5\<lparr>reward :=
                            Some (case ts_reward r of Some x \<Rightarrow> x | None \<Rightarrow> 0)\<rparr>;
                  self7 = self6\<lparr>done_flag := Some (ts_last r)\<rparr>
              in (Inr (), self7))))"

subsection \<open>\<^verbatim>\<open>_take_action\<close>, \<^verbatim>\<open>_restart_environment_episode\<close>, \<^verbatim>\<open>get_rendered_image\<close>\<close>

text \<open>
  The statement \<^verbatim>\<open>self.last_result = self.env.f(...)\<close>: the call changes the simulator; when
  it raises, the assignment does not happen.
\<close>

text \<open>
  In \<^verbatim>\<open>_take_action\<close> the clip comes first: when it raises, the simulator is not called.
\<close>

definition assign_last_result :: "'s wrapper \<Rightarrow> (exn + time_step) \<times> 's \<Rightarrow> (exn + unit) \<times> 's wrapper" where
  "assign_last_result self res =
     (case res of
        (Inl e, s') \<Rightarrow> (Inl e, self\<lparr>env := s'\<rparr>)
      | (Inr r, s') \<Rightarrow> (Inr (), self\<lparr>env := s', last_result := Some r\<rparr>))"

definition take_action :: "'s simulator \<Rightarrow> 's wrapper \<Rightarrow> real list \<Rightarrow> (exn + unit) \<times> 's wrapper" where
  "take_action sim self action =
     (case (case action_space self of
              BoxActionSpace b \<Rightarrow> clip_action_to_space b action
            | OtherActionSpace \<Rightarrow> Inr action) of
        Inl e \<Rightarrow> (Inl e, self)
      | Inr action' \<Rightarrow> assign_last_result self (step sim (env self) action'))"

definition restart_environment_episode ::
  "'s simulator \<Rightarrow> 's wrapper \<Rightarrow> bool \<Rightarrow> (exn + unit) \<times> 's wrapper" where
  "restart_environment_episode sim self force_environment_reset =
     assign_last_result self (reset sim (env self))"

definition get_rendered_image :: "'s simulator \<Rightarrow> 's wrapper \<Rightarrow> exn + py_value" where
  "get_rendered_image sim self = physics_render sim (env self) 0"

subsection \<open>Descriptions used in the statements\<close>

text \<open>
  The number of dimensions of a sub-observation, the number of measurements it contributes
  when it has at most one dimension, its elements and its shape.
\<close>

fun ndim :: "py_value \<Rightarrow> nat" where
  "ndim (PyScalar v) = 0"
| "ndim (NDArray s d) = length s"

fun value_size :: "py_value \<Rightarrow> nat" where
  "value_size (PyScalar v) = 1"
| "value_size (NDArray [] d) = 1"
| "value_size (NDArray (n # r) d) = n"

fun value_data :: "py_value \<Rightarrow> real list" where
  "value_data (PyScalar v) = [v]"
| "value_data (NDArray s d) = d"

fun value_shape :: "py_value \<Rightarrow> nat list" where
  "value_shape (PyScalar v) = []"
| "value_shape (NDArray s d) = s"

text \<open>
  What an entry of the observation spec contributes to the measurements space, in the words
  of the description: a scalar entry counts 1 and gives its name, a one-dimensional entry
  counts its length and gives one indexed name per component, any other entry nothing.
\<close>

fun entry_size :: "string \<times> array_spec \<Rightarrow> nat" where
  "entry_size (name, sp) =
     (if length (shape sp) = 0 then 1 else if length (shape sp) = 1 then shape sp ! 0 else 0)"

fun entry_names :: "string \<times> array_spec \<Rightarrow> string list" where
  "entry_names (name, sp) =
     (if length (shape sp) = 0 then [name]
      else if length (shape sp) = 1 then map (format_name name) [0 ..< shape sp ! 0]
      else [])"

subsection \<open>Concrete objects\<close>

text \<open>
  A simulator whose state is the list of the actions it has received, with a two-component
  position and a 1 x 2 pixel colour image; a variant whose \<^verbatim>\<open>step\<close> and \<^verbatim>\<open>reset\<close> raise;
  a wrapper object around it; and the attributes of a freshly constructed base object.
\<close>

definition ex_observation_spec :: "(string \<times> array_spec) list" where
  "ex_observation_spec = [(''position'', \<lparr>shape = [2]\<rparr>), (''pixels'', \<lparr>shape = [1, 2, 3]\<rparr>)]"

definition ex_time_step :: time_step where
  "ex_time_step =
     \<lparr> observation = [(''position'', NDArray [2] [1/2, 1/4]),
                      (''pixels'', NDArray [1, 2, 3] [0, 10, 20, 30, 40, 50])],
       ts_reward = Some 1, ts_last = True \<rparr>"

definition ex_sim :: "real list list simulator" where
  "ex_sim =
     \<lparr> observation_spec = (\<lambda>s. ex_observation_spec),
       action_spec = (\<lambda>s. \<lparr>shape = [1], minimum = [-1], maximum = [1]\<rparr>),
       step = (\<lambda>s a. (Inr ex_time_step, s @ [a])),
       reset = (\<lambda>s. (Inr (ex_time_step\<lparr>ts_reward := None, ts_last := False\<rparr>), s)),
       physics_render = (\<lambda>s camera_id. Inr (NDArray [1, 2, 3] [0, 10, 20, 30, 40, 50])) \<rparr>"

definition ex_failing_sim :: "real list list simulator" where
  "ex_failing_sim =
     ex_sim \<lparr> step := (\<lambda>s a. (Inl (OtherError ''PhysicsError''), s @ [a])),
              reset := (\<lambda>s. (Inl (OtherError ''PhysicsError''), s)) \<rparr>"

definition ex_wrapper :: "real list list wrapper" where
  "ex_wrapper =
     \<lparr> env_id = ''cartpole:balance'', seed = None, last_result = Some ex_time_step,
       state = Map.empty, reward = Some 0, done_flag = Some False,
       env = [],
       state_space = Map.empty,
       action_space = BoxActionSpace \<lparr>box_shape = 1, low = [-1], high = [1]\<rparr>,
       pixels = None, measurements = None \<rparr>"

definition ex_environment :: environment where
  "ex_environment =
     \<lparr> env_id = ''cartpole:balance'', seed = Some 7, last_result = None,
       state = Map.empty, reward = None, done_flag = None \<rparr>"

definition ex_reset_internal_state :: "real list list wrapper \<Rightarrow> bool \<Rightarrow> exn + real list list wrapper" where
  "ex_reset_internal_state self force =
     (case restart_environment_episode ex_sim self force of
        (Inl e, self') \<Rightarrow> Inl e
      | (Inr u, self') \<Rightarrow> Inr self')"

text \<open>
  A library loader and a pixels wrapper that return the simulator with no action received,
  and the object that the constructor then builds.
\<close>

definition ex_suite_load :: "string \<Rightarrow> string \<Rightarrow> exn + real list list" where
  "ex_suite_load domain_name task_name = Inr []"

definition ex_pixels_Wrapper :: "real list list \<Rightarrow> bool \<Rightarrow> exn + real list list" where
  "ex_pixels_Wrapper e pixels_only = Inr e"

definition ex_initialised :: "real list list wrapper" where
  "ex_initialised =
     \<lparr> env_id = ''cartpole:balance'', seed = Some 7,
       last_result = Some (ex_time_step\<lparr>ts_reward := None, ts_last := False\<rparr>),
       state = Map.empty, reward = None, done_flag = None,
       env = [],
       state_space =
         [''pixels'' \<mapsto> ImageObservationSpace [1, 2, 3] 255,
          ''measurements'' \<mapsto> VectorObservationSpace 2 [''position_0'', ''position_1'']],
       action_space = BoxActionSpace \<lparr>box_shape = 1, low = [-1], high = [1]\<rparr>,
       pixels = None, measurements = None \<rparr>"

section \<open>Properties\<close>

subsection \<open>The two loops\<close>


lemma measurements_loop_eq:
  "measurements_loop spec (n, names) =
     (n + sum_list (map entry_size spec), names @ concat (map entry_names spec))"
  by (induction spec arbitrary: n names) auto

lemma concatenate_loop_raises:
  "\<exists>v\<in>set vs. 2 \<le> ndim v \<Longrightarrow> fst (concatenate_loop vs (NDArray [k] d)) = Inl ValueError"
proof (induction vs arbitrary: k d)
  case Nil
  then show ?case by simp
next
  case (Cons v vs)
  show ?case
  proof (cases v)
    case (PyScalar x)
    with Cons show ?thesis by simp
  next
    case (NDArray s e)
    show ?thesis
    proof (cases s)
      case Nil
      with NDArray Cons show ?thesis by simp
    next
      case (Cons n r)
      note s = this
      show ?thesis
      proof (cases r)
        case Nil
        with s NDArray Cons.IH Cons.prems show ?thesis by simp
      next
        case (Cons n' r')
        with s NDArray show ?thesis by simp
      qed
    qed
  qed
qed

lemma concatenate_loop_returns:
  "\<forall>v\<in>set vs. ndim v \<le> 1 \<Longrightarrow>
   concatenate_loop vs (NDArray [k] d) =
     (Inr (), NDArray [k + sum_list (map value_size vs)] (d @ concat (map value_data vs)))"
proof (induction vs arbitrary: k d)
  case Nil
  then show ?case by simp
next
  case (Cons v vs)
  show ?case
  proof (cases v)
    case (PyScalar x)
    with Cons show ?thesis by (simp add: add.assoc)
  next
    case (NDArray s e)
    show ?thesis
    proof (cases s)
      case Nil
      with NDArray Cons show ?thesis by (simp add: add.assoc)
    next
      case (Cons n r)
      with NDArray Cons.prems have "r = []" by simp
      with Cons NDArray Cons.IH Cons.prems show ?thesis by (simp add: add.assoc)
    qed
  qed
qed

subsection \<open>What \<^verbatim>\<open>_update_state\<close> does\<close>

text \<open>
  The call raises ValueError as soon as one sub-observation has two or more dimensions: the
  loop wraps it in one more axis and numpy refuses to join it to the one-dimensional
  vector. The statements after the loop are then not reached.
\<close>

lemma update_state_raises:
  assumes "last_result w = Some r" and "map_of (observation r) ''pixels'' = Some px"
    and "\<exists>v\<in>set (map snd (observation r)). 2 \<le> ndim v"
  shows "fst (update_state w) = Inl ValueError"
    and "reward (snd (update_state w)) = reward w"
    and "done_flag (snd (update_state w)) = done_flag w"
    and "state (snd (update_state w)) ''measurements'' = None"
proof -
  from concatenate_loop_raises [OF assms(3), of 0 "[]"]
  obtain m where m: "concatenate_loop (map snd (observation r)) (NDArray [0] []) = (Inl ValueError, m)"
    by (cases "concatenate_loop (map snd (observation r)) (NDArray [0] [])") auto
  show "fst (update_state w) = Inl ValueError"
    using assms(1,2) m by (simp add: update_state_def)
  show "reward (snd (update_state w)) = reward w"
    using assms(1,2) m by (simp add: update_state_def)
  show "done_flag (snd (update_state w)) = done_flag w"
    using assms(1,2) m by (simp add: update_state_def)
  show "state (snd (update_state w)) ''measurements'' = None"
    using assms(1,2) m by (simp add: update_state_def)
qed

text \<open>
  When every sub-observation is a number or has at most one dimension the call returns, and
  the measurements are the flattened sub-observations in the dictionary's order.
\<close>

lemma update_state_returns:
  assumes "last_result w = Some r" and "map_of (observation r) ''pixels'' = Some px"
    and "\<forall>v\<in>set (map snd (observation r)). ndim v \<le> 1"
  shows "fst (update_state w) = Inr ()"
    and "reward (snd (update_state w)) = Some (case ts_reward r of Some x \<Rightarrow> x | None \<Rightarrow> 0)"
    and "done_flag (snd (update_state w)) = Some (ts_last r)"
    and "state (snd (update_state w)) ''measurements'' =
           Some (NDArray [sum_list (map value_size (map snd (observation r)))]
                         (concat (map value_data (map snd (observation r)))))"
proof -
  note m = concatenate_loop_returns [OF assms(3), of 0 "[]"]
  show "fst (update_state w) = Inr ()"
    using assms(1,2) m by (simp add: update_state_def)
  show "reward (snd (update_state w)) = Some (case ts_reward r of Some x \<Rightarrow> x | None \<Rightarrow> 0)"
    using assms(1,2) m by (simp add: update_state_def)
  show "done_flag (snd (update_state w)) = Some (ts_last r)"
    using assms(1,2) m by (simp add: update_state_def)
  show "state (snd (update_state w)) ''measurements'' =
           Some (NDArray [sum_list (map value_size (map snd (observation r)))]
                         (concat (map value_data (map snd (observation r)))))"
    using assms(1,2) m by (simp add: update_state_def)
qed

lemma entry_names_length:
  "length (concat (map entry_names spec)) = sum_list (map entry_size spec)"
  by (induction spec) auto

text \<open>
  When moreover the sub-observations have the shapes of the observation spec, entry by
  entry, the length of that vector is the size that the constructor's loop computes.
\<close>

lemma value_size_entry_size:
  "ndim v \<le> 1 \<Longrightarrow> shape sp = value_shape v \<Longrightarrow> value_size v = entry_size (name, sp)"
  by (cases v rule: value_size.cases) auto

lemma conforming_measurements_size:
  assumes "map (value_shape \<circ> snd) obs = map (shape \<circ> snd) spec"
    and "\<forall>v\<in>set (map snd obs). ndim v \<le> 1"
  shows "sum_list (map value_size (map snd obs)) = sum_list (map entry_size spec)"
  using assms
proof (induction obs arbitrary: spec)
  case Nil
  then show ?case by simp
next
  case (Cons kv obs)
  from Cons.prems(1) obtain ns spec' where spec: "spec = ns # spec'"
    by (cases spec) auto
  obtain name sp where ns: "ns = (name, sp)"
    by (cases ns)
  from Cons.prems spec ns have "value_size (snd kv) = entry_size (name, sp)"
    by (intro value_size_entry_size) auto
  moreover from Cons.prems spec have "sum_list (map value_size (map snd obs)) = sum_list (map entry_size spec')"
    by (intro Cons.IH) auto
  ultimately show ?case using spec ns by simp
qed

text \<open>
  Claim C1. The claim says that for every simulator result the measurements vector set by
  \<^verbatim>\<open>_update_state\<close> has the length that \<^verbatim>\<open>__init__\<close> computed from the observation spec. On a
  result with a two-component position and a three-dimensional pixels image, for which
  \<^verbatim>\<open>__init__\<close> computes the size 2, the call raises ValueError and the state has no
  measurements entry at all.
\<close>

theorem update_state_image_raises:
  "last_result ex_wrapper = Some ex_time_step \<and>
   fst (update_state ex_wrapper) = Inl ValueError \<and>
   state (snd (update_state ex_wrapper)) ''measurements'' = None \<and>
   measurements_loop ex_observation_spec (0, []) = (2, [''position_0'', ''position_1''])"
  by (simp add: update_state_def ex_wrapper_def ex_time_step_def ex_observation_spec_def
      format_name_def upt_rec digit_def)

text \<open>
  Claim C5. The claim says that after every call of \<^verbatim>\<open>_update_state\<close> the attribute
  \<^verbatim>\<open>done\<close> equals \<^verbatim>\<open>last_result.last()\<close>. On the same result, the last one of its episode,
  the call raises ValueError before the assignment and \<^verbatim>\<open>done\<close> keeps the value False it
  had before.
\<close>

theorem update_state_image_done_stale:
  "last_result ex_wrapper = Some ex_time_step \<and> ts_last ex_time_step = True \<and>
   done_flag ex_wrapper = Some False \<and>
   fst (update_state ex_wrapper) = Inl ValueError \<and>
   done_flag (snd (update_state ex_wrapper)) = Some False"
  by (simp add: update_state_def ex_wrapper_def ex_time_step_def)

text \<open>
  Claim C9. The claim says that \<^verbatim>\<open>_update_state\<close> sets the reward to the result's reward when
  there is one. On the same result, whose reward is 1, the call raises ValueError before the
  assignment and the reward keeps the value 0 it had before.
\<close>

theorem update_state_image_reward_stale:
  "last_result ex_wrapper = Some ex_time_step \<and> ts_reward ex_time_step = Some 1 \<and>
   reward ex_wrapper = Some 0 \<and>
   fst (update_state ex_wrapper) = Inl ValueError \<and>
   reward (snd (update_state ex_wrapper)) = Some 0"
  by (simp add: update_state_def ex_wrapper_def ex_time_step_def)

text \<open>
  Claim C7. For every simulator result in \<^verbatim>\<open>last_result\<close> whose observation has a pixels
  entry, after \<^verbatim>\<open>_update_state\<close> (also when it raises in the measurements loop) the state's
  pixels entry is that entry, unchanged; and \<^verbatim>\<open>get_rendered_image\<close> returns what the
  simulator's \<^verbatim>\<open>physics.render(camera_id=0)\<close> returns.
\<close>

theorem update_state_pixels:
  assumes "last_result w = Some r" and "map_of (observation r) ''pixels'' = Some px"
  shows "state (snd (update_state w)) ''pixels'' = Some px \<and>
         pixels (snd (update_state w)) = Some px \<and>
         get_rendered_image sim w = physics_render sim (env w) 0"
  using assms
  by (simp add: update_state_def get_rendered_image_def Let_def split: prod.splits sum.splits)

theorem update_state_pixels_witness:
  "state (snd (update_state ex_wrapper)) ''pixels'' = Some (NDArray [1, 2, 3] [0, 10, 20, 30, 40, 50]) \<and>
   get_rendered_image ex_sim ex_wrapper = Inr (NDArray [1, 2, 3] [0, 10, 20, 30, 40, 50])"
proof -
  have l: "last_result ex_wrapper = Some ex_time_step"
    by (simp add: ex_wrapper_def)
  have p: "map_of (observation ex_time_step) ''pixels'' = Some (NDArray [1, 2, 3] [0, 10, 20, 30, 40, 50])"
    by (simp add: ex_time_step_def)
  from update_state_pixels [OF l p, of ex_sim] show ?thesis
    by (simp add: ex_sim_def)
qed

subsection \<open>Actions and episodes\<close>

lemma broadcast_length_Some:
  "broadcast_length m n = Some k \<Longrightarrow> (m = k \<or> m = 1) \<and> (n = k \<or> n = 1)"
  by (auto simp: broadcast_length_def split: if_splits)

lemma broadcast_nth_same: "i < length xs \<Longrightarrow> broadcast_nth xs i = xs ! i"
  by (auto simp: broadcast_nth_def)

lemma np_clip_lengths:
  assumes "np_clip a a_min a_max = Inr a'"
  shows "(length a = length a' \<or> length a = 1) \<and>
         (length a_min = length a' \<or> length a_min = 1) \<and>
         (length a_max = length a' \<or> length a_max = 1)"
proof -
  from assms obtain m n where
    m: "broadcast_length (length a) (length a_min) = Some m" and
    n: "broadcast_length m (length a_max) = Some n" and
    l: "length a' = n"
    by (auto simp: np_clip_def split: option.splits)
  from broadcast_length_Some [OF m] broadcast_length_Some [OF n] l show ?thesis
    by auto
qed

lemma np_clip_nth:
  assumes "np_clip a a_min a_max = Inr a'" and "i < length a'"
  shows "a' ! i = min (max (broadcast_nth a i) (broadcast_nth a_min i)) (broadcast_nth a_max i)"
  using assms by (auto simp: np_clip_def split: option.splits)

lemma np_clip_inside:
  assumes "length a_min = length a" and "length a_max = length a"
    and "\<forall>i<length a. a_min ! i \<le> a ! i \<and> a ! i \<le> a_max ! i"
  shows "np_clip a a_min a_max = Inr a"
proof -
  have "map (\<lambda>i. min (max (broadcast_nth a i) (broadcast_nth a_min i)) (broadcast_nth a_max i))
          [0 ..< length a] = a"
  proof (rule nth_equalityI)
    show "length (map (\<lambda>i. min (max (broadcast_nth a i) (broadcast_nth a_min i))
            (broadcast_nth a_max i)) [0 ..< length a]) = length a"
      by simp
  next
    fix i
    assume "i < length (map (\<lambda>i. min (max (broadcast_nth a i) (broadcast_nth a_min i))
            (broadcast_nth a_max i)) [0 ..< length a])"
    then have i: "i < length a" by simp
    with assms(3) have "a_min ! i \<le> a ! i" and "a ! i \<le> a_max ! i" by simp_all
    with i assms(1,2)
    show "map (\<lambda>i. min (max (broadcast_nth a i) (broadcast_nth a_min i)) (broadcast_nth a_max i))
            [0 ..< length a] ! i = a ! i"
      by (simp add: broadcast_nth_same)
  qed
  with assms(1,2) show ?thesis
    by (simp add: np_clip_def broadcast_length_def)
qed

lemma broadcast_bounds_ordered:
  assumes "np_clip a a_min a_max = Inr a'" and "i < length a'"
    and "\<forall>i<max (length a_min) (length a_max). broadcast_nth a_min i \<le> broadcast_nth a_max i"
  shows "broadcast_nth a_min i \<le> broadcast_nth a_max i"
proof (cases "length a_min = 1 \<and> length a_max = 1")
  case True
  with assms(3) have "broadcast_nth a_min 0 \<le> broadcast_nth a_max 0" by simp
  with True show ?thesis by (simp add: broadcast_nth_def)
next
  case False
  with np_clip_lengths [OF assms(1)] assms(2) have "i < max (length a_min) (length a_max)"
    by auto
  with assms(3) show ?thesis by simp
qed

lemma assign_last_result_raises:
  assumes "fst res = Inl e"
  shows "fst (assign_last_result w res) = Inl e"
    and "last_result (snd (assign_last_result w res)) = last_result w"
    and "state (snd (assign_last_result w res)) = state w"
    and "reward (snd (assign_last_result w res)) = reward w"
    and "done_flag (snd (assign_last_result w res)) = done_flag w"
  using assms by (cases res; simp add: assign_last_result_def)+

text \<open>
  Claim C8. For every action, when the action space is a BoxActionSpace whose low bound is
  nowhere above its high bound, \<^verbatim>\<open>_take_action\<close> either raises what the clip raises, without
  calling the simulator, or hands to the simulator's \<^verbatim>\<open>step\<close> the clipped action: each of its
  components is the action's component raised to the low bound and lowered to the high bound
  of its index, and so lies between the two bounds.
\<close>

theorem take_action_clips_into_bounds:
  assumes "action_space w = BoxActionSpace b"
    and "\<forall>i<max (length (low b)) (length (high b)).
           broadcast_nth (low b) i \<le> broadcast_nth (high b) i"
  shows "take_action sim w a =
           (case clip_action_to_space b a of
              Inl e \<Rightarrow> (Inl e, w)
            | Inr a' \<Rightarrow> assign_last_result w (step sim (env w) a')) \<and>
         (\<forall>a'. clip_action_to_space b a = Inr a' \<longrightarrow>
            (\<forall>i<length a'.
               a' ! i = min (max (broadcast_nth a i) (broadcast_nth (low b) i))
                            (broadcast_nth (high b) i) \<and>
               broadcast_nth (low b) i \<le> a' ! i \<and> a' ! i \<le> broadcast_nth (high b) i))"
proof (intro conjI allI impI)
  show "take_action sim w a =
           (case clip_action_to_space b a of
              Inl e \<Rightarrow> (Inl e, w)
            | Inr a' \<Rightarrow> assign_last_result w (step sim (env w) a'))"
    using assms(1) by (simp add: take_action_def)
next
  fix a' i
  assume c: "clip_action_to_space b a = Inr a'" and i: "i < length a'"
  then have n: "np_clip a (low b) (high b) = Inr a'"
    by (simp add: clip_action_to_space_def)
  from np_clip_nth [OF n i]
  show e: "a' ! i = min (max (broadcast_nth a i) (broadcast_nth (low b) i))
                      (broadcast_nth (high b) i)" .
  from broadcast_bounds_ordered [OF n i assms(2)]
  have o: "broadcast_nth (low b) i \<le> broadcast_nth (high b) i" .
  from e o show "broadcast_nth (low b) i \<le> a' ! i" by simp
  from e show "a' ! i \<le> broadcast_nth (high b) i" by simp
qed

theorem take_action_clips_into_bounds_witness:
  "clip_action_to_space \<lparr>box_shape = 1, low = [-1], high = [1]\<rparr> [5, -7, 1/2] = Inr [1, -1, 1/2] \<and>
   take_action ex_sim ex_wrapper [5, -7, 1/2] =
     assign_last_result ex_wrapper (step ex_sim (env ex_wrapper) [1, -1, 1/2]) \<and>
   env (snd (take_action ex_sim ex_wrapper [5, -7, 1/2])) = [[1, -1, 1/2]] \<and>
   take_action ex_sim
     (ex_wrapper\<lparr>action_space := BoxActionSpace \<lparr>box_shape = 2, low = [-1, -1], high = [1, 1]\<rparr>\<rparr>)
     [5, -7, 1/2] =
     (Inl ValueError,
      ex_wrapper\<lparr>action_space := BoxActionSpace \<lparr>box_shape = 2, low = [-1, -1], high = [1, 1]\<rparr>\<rparr>)"
proof -
  let ?b = "\<lparr>box_shape = 1, low = [-1], high = [1::real]\<rparr>"
  let ?b2 = "\<lparr>box_shape = 2, low = [-1, -1], high = [1, 1::real]\<rparr>"
  let ?w2 = "ex_wrapper\<lparr>action_space := BoxActionSpace ?b2\<rparr>"
  have s: "action_space ex_wrapper = BoxActionSpace ?b"
    by (simp add: ex_wrapper_def)
  have o: "\<forall>i<max (length (low ?b)) (length (high ?b)).
             broadcast_nth (low ?b) i \<le> broadcast_nth (high ?b) i"
    by (simp add: broadcast_nth_def)
  have c: "clip_action_to_space ?b [5, -7, 1/2] = Inr [1, -1, 1/2]"
    by (simp add: clip_action_to_space_def np_clip_def broadcast_length_def broadcast_nth_def
        upt_rec)
  from take_action_clips_into_bounds [OF s o, of ex_sim "[5, -7, 1/2]"] c
  have 1: "take_action ex_sim ex_wrapper [5, -7, 1/2] =
     assign_last_result ex_wrapper (step ex_sim (env ex_wrapper) [1, -1, 1/2])"
    by simp
  then have 2: "env (snd (take_action ex_sim ex_wrapper [5, -7, 1/2])) = [[1, -1, 1/2]]"
    by (simp add: ex_sim_def ex_wrapper_def assign_last_result_def)
  have s2: "action_space ?w2 = BoxActionSpace ?b2"
    by simp
  have o2: "\<forall>i<max (length (low ?b2)) (length (high ?b2)).
             broadcast_nth (low ?b2) i \<le> broadcast_nth (high ?b2) i"
    by (simp add: broadcast_nth_def less_Suc_eq numeral_2_eq_2)
  have c2: "clip_action_to_space ?b2 [5, -7, 1/2] = Inl ValueError"
    by (simp add: clip_action_to_space_def np_clip_def broadcast_length_def)
  from take_action_clips_into_bounds [OF s2 o2, of ex_sim "[5, -7, 1/2]"] c2
  have 3: "take_action ex_sim ?w2 [5, -7, 1/2] = (Inl ValueError, ?w2)"
    by simp
  from c 1 2 3 show ?thesis by blast
qed

text \<open>
  Claim C2. As stated the claim fails: with the bounds -1 and 1 the action 5 reaches the
  simulator as 1, not unchanged.
\<close>

theorem take_action_not_unchanged:
  "take_action ex_sim ex_wrapper [5] \<noteq> assign_last_result ex_wrapper (step ex_sim (env ex_wrapper) [5]) \<and>
   env (snd (take_action ex_sim ex_wrapper [5])) = [[1]] \<and>
   env (snd (assign_last_result ex_wrapper (step ex_sim (env ex_wrapper) [5]))) = [[5]]"
  by (simp add: take_action_def ex_sim_def ex_wrapper_def clip_action_to_space_def np_clip_def
      broadcast_length_def broadcast_nth_def assign_last_result_def)

text \<open>
  Claim C2, amended. \<^verbatim>\<open>_take_action\<close> stores the result of the simulator's \<^verbatim>\<open>step\<close> on the
  action clipped into the bounds when the action space is a BoxActionSpace (and raises what the
  clip raises, when it does), which is the action itself when it already lies within the
  bounds, and on the action itself when the action space is of another class;
  \<^verbatim>\<open>_restart_environment_episode\<close> stores the result of the simulator's \<^verbatim>\<open>reset\<close>;
  \<^verbatim>\<open>get_rendered_image\<close> returns the simulator's rendering of camera 0.
\<close>

theorem methods_delegate:
  "(action_space w = BoxActionSpace b \<longrightarrow>
      take_action sim w a =
        (case clip_action_to_space b a of
           Inl e \<Rightarrow> (Inl e, w)
         | Inr a' \<Rightarrow> assign_last_result w (step sim (env w) a'))) \<and>
   (action_space w = BoxActionSpace b \<and> length (low b) = length a \<and> length (high b) = length a \<and>
      (\<forall>i<length a. low b ! i \<le> a ! i \<and> a ! i \<le> high b ! i) \<longrightarrow>
      take_action sim w a = assign_last_result w (step sim (env w) a)) \<and>
   (action_space w' = OtherActionSpace \<longrightarrow>
      take_action sim w' a = assign_last_result w' (step sim (env w') a)) \<and>
   restart_environment_episode sim w force = assign_last_result w (reset sim (env w)) \<and>
   get_rendered_image sim w = physics_render sim (env w) 0"
proof (intro conjI impI)
  assume "action_space w = BoxActionSpace b"
  then show "take_action sim w a =
        (case clip_action_to_space b a of
           Inl e \<Rightarrow> (Inl e, w)
         | Inr a' \<Rightarrow> assign_last_result w (step sim (env w) a'))"
    by (simp add: take_action_def)
next
  assume h: "action_space w = BoxActionSpace b \<and> length (low b) = length a \<and>
    length (high b) = length a \<and> (\<forall>i<length a. low b ! i \<le> a ! i \<and> a ! i \<le> high b ! i)"
  then have "np_clip a (low b) (high b) = Inr a"
    by (intro np_clip_inside) simp_all
  with h show "take_action sim w a = assign_last_result w (step sim (env w) a)"
    by (simp add: take_action_def clip_action_to_space_def)
next
  assume "action_space w' = OtherActionSpace"
  then show "take_action sim w' a = assign_last_result w' (step sim (env w') a)"
    by (simp add: take_action_def)
next
  show "restart_environment_episode sim w force = assign_last_result w (reset sim (env w))"
    by (simp add: restart_environment_episode_def)
next
  show "get_rendered_image sim w = physics_render sim (env w) 0"
    by (simp add: get_rendered_image_def)
qed

theorem methods_delegate_witness:
  "take_action ex_sim ex_wrapper [5] = assign_last_result ex_wrapper (Inr ex_time_step, [[1]]) \<and>
   take_action ex_sim ex_wrapper [1/2] = assign_last_result ex_wrapper (Inr ex_time_step, [[1/2]]) \<and>
   take_action ex_sim (ex_wrapper\<lparr>action_space := OtherActionSpace\<rparr>) [5] =
     assign_last_result (ex_wrapper\<lparr>action_space := OtherActionSpace\<rparr>) (Inr ex_time_step, [[5]]) \<and>
   last_result (snd (restart_environment_episode ex_sim ex_wrapper True)) =
     Some (ex_time_step\<lparr>ts_reward := None, ts_last := False\<rparr>) \<and>
   get_rendered_image ex_sim ex_wrapper = Inr (NDArray [1, 2, 3] [0, 10, 20, 30, 40, 50])"
proof -
  let ?b = "\<lparr>box_shape = 1, low = [-1], high = [1::real]\<rparr>"
  let ?w' = "ex_wrapper\<lparr>action_space := OtherActionSpace\<rparr>"
  have s: "action_space ex_wrapper = BoxActionSpace ?b"
    by (simp add: ex_wrapper_def)
  have i: "action_space ex_wrapper = BoxActionSpace ?b \<and> length (low ?b) = length [1/2::real] \<and>
      length (high ?b) = length [1/2::real] \<and>
      (\<forall>i<length [1/2::real]. low ?b ! i \<le> [1/2] ! i \<and> [1/2] ! i \<le> high ?b ! i)"
    using s by simp
  have t: "action_space ?w' = OtherActionSpace"
    by simp
  have e: "env ex_wrapper = []" "env ?w' = []"
    by (simp_all add: ex_wrapper_def)
  have c: "clip_action_to_space ?b [5] = Inr [1]"
    by (simp add: clip_action_to_space_def np_clip_def broadcast_length_def broadcast_nth_def)
  note m5 = methods_delegate [where w = ex_wrapper and b = ?b and sim = ex_sim and a = "[5]"
      and w' = ?w' and force = True]
  note mh = methods_delegate [where w = ex_wrapper and b = ?b and sim = ex_sim and a = "[1/2]"
      and w' = ?w' and force = True]
  from m5 s have "take_action ex_sim ex_wrapper [5] =
      (case clip_action_to_space ?b [5] of
         Inl e \<Rightarrow> (Inl e, ex_wrapper)
       | Inr a' \<Rightarrow> assign_last_result ex_wrapper (step ex_sim (env ex_wrapper) a'))"
    by blast
  with c e have 1: "take_action ex_sim ex_wrapper [5] =
      assign_last_result ex_wrapper (Inr ex_time_step, [[1]])"
    by (simp add: ex_sim_def)
  from mh i have "take_action ex_sim ex_wrapper [1/2] =
      assign_last_result ex_wrapper (step ex_sim (env ex_wrapper) [1/2])"
    by blast
  with e have 2: "take_action ex_sim ex_wrapper [1/2] =
      assign_last_result ex_wrapper (Inr ex_time_step, [[1/2]])"
    by (simp add: ex_sim_def)
  from m5 t have "take_action ex_sim ?w' [5] = assign_last_result ?w' (step ex_sim (env ?w') [5])"
    by blast
  with e have 3: "take_action ex_sim ?w' [5] = assign_last_result ?w' (Inr ex_time_step, [[5]])"
    by (simp add: ex_sim_def)
  from m5 have "restart_environment_episode ex_sim ex_wrapper True =
      assign_last_result ex_wrapper (reset ex_sim (env ex_wrapper))"
    by blast
  then have 4: "last_result (snd (restart_environment_episode ex_sim ex_wrapper True)) =
      Some (ex_time_step\<lparr>ts_reward := None, ts_last := False\<rparr>)"
    by (simp add: ex_sim_def assign_last_result_def)
  from m5 have "get_rendered_image ex_sim ex_wrapper = physics_render ex_sim (env ex_wrapper) 0"
    by blast
  then have 5: "get_rendered_image ex_sim ex_wrapper =
      Inr (NDArray [1, 2, 3] [0, 10, 20, 30, 40, 50])"
    by (simp add: ex_sim_def)
  from 1 2 3 4 5 show ?thesis by blast
qed

text \<open>
  Claim C3. When the simulator's \<^verbatim>\<open>step\<close> raises on the action it is handed, \<^verbatim>\<open>_take_action\<close>
  raises the same exception, and when its \<^verbatim>\<open>reset\<close> raises,
  \<^verbatim>\<open>_restart_environment_episode\<close> raises the same exception; in both cases the last result,
  the state, the reward and the done flag of the wrapper are as before the call.
\<close>

theorem simulator_exception_propagates:
  "((case action_space w of BoxActionSpace b \<Rightarrow> clip_action_to_space b a
                         | OtherActionSpace \<Rightarrow> Inr a) = Inr a' \<and>
    fst (step sim (env w) a') = Inl e \<longrightarrow>
      fst (take_action sim w a) = Inl e \<and>
      last_result (snd (take_action sim w a)) = last_result w \<and>
      state (snd (take_action sim w a)) = state w \<and>
      reward (snd (take_action sim w a)) = reward w \<and>
      done_flag (snd (take_action sim w a)) = done_flag w) \<and>
   (fst (reset sim (env w)) = Inl e' \<longrightarrow>
      fst (restart_environment_episode sim w force) = Inl e' \<and>
      last_result (snd (restart_environment_episode sim w force)) = last_result w \<and>
      state (snd (restart_environment_episode sim w force)) = state w \<and>
      reward (snd (restart_environment_episode sim w force)) = reward w \<and>
      done_flag (snd (restart_environment_episode sim w force)) = done_flag w)"
  by (simp add: take_action_def restart_environment_episode_def assign_last_result_raises)

theorem simulator_exception_propagates_witness:
  "fst (take_action ex_failing_sim ex_wrapper [5]) = Inl (OtherError ''PhysicsError'') \<and>
   last_result (snd (take_action ex_failing_sim ex_wrapper [5])) = Some ex_time_step \<and>
   reward (snd (take_action ex_failing_sim ex_wrapper [5])) = Some 0 \<and>
   done_flag (snd (take_action ex_failing_sim ex_wrapper [5])) = Some False \<and>
   fst (restart_environment_episode ex_failing_sim ex_wrapper True) = Inl (OtherError ''PhysicsError'') \<and>
   last_result (snd (restart_environment_episode ex_failing_sim ex_wrapper True)) = Some ex_time_step"
proof -
  have s: "(case action_space ex_wrapper of BoxActionSpace b \<Rightarrow> clip_action_to_space b [5]
            | OtherActionSpace \<Rightarrow> Inr [5]) = Inr [1] \<and>
           fst (step ex_failing_sim (env ex_wrapper) [1]) = Inl (OtherError ''PhysicsError'')"
    by (simp add: ex_failing_sim_def ex_wrapper_def clip_action_to_space_def np_clip_def
        broadcast_length_def broadcast_nth_def)
  have r: "fst (reset ex_failing_sim (env ex_wrapper)) = Inl (OtherError ''PhysicsError'')"
    by (simp add: ex_failing_sim_def)
  have w: "last_result ex_wrapper = Some ex_time_step" "reward ex_wrapper = Some 0"
    "done_flag ex_wrapper = Some False"
    by (simp_all add: ex_wrapper_def)
  from simulator_exception_propagates [where w = ex_wrapper and a = "[5]" and a' = "[1]"
      and sim = ex_failing_sim and e = "OtherError ''PhysicsError''"
      and e' = "OtherError ''PhysicsError''" and force = True] s r w
  show ?thesis by simp
qed

text \<open>
  Claim C10. \<^verbatim>\<open>_restart_environment_episode\<close> does the same with \<^verbatim>\<open>force_environment_reset\<close>
  True and False: whatever the flag, it calls the simulator's \<^verbatim>\<open>reset\<close> and stores the
  result.
\<close>

theorem restart_ignores_force_flag:
  "restart_environment_episode sim w True = restart_environment_episode sim w False \<and>
   restart_environment_episode sim w force = assign_last_result w (reset sim (env w))"
  by (simp add: restart_environment_episode_def)

subsection \<open>The spaces that \<^verbatim>\<open>__init__\<close> declares\<close>

lemma init_returns:
  assumes "split_str CHR '':'' (env_id self) = [domain_name, task_name]"
    and "suite_load domain_name task_name = Inr e0"
    and "pixels_Wrapper e0 False = Inr e1"
    and "init sim suite_load pixels_Wrapper reset_internal_state self = Inr w"
  shows "\<exists>pixels_spec n rest.
           map_of (observation_spec sim e1) ''pixels'' = Some pixels_spec \<and>
           shape (action_spec sim e1) = n # rest \<and>
           reset_internal_state
             \<lparr> env_id = env_id self, seed = seed self, last_result = last_result self,
               state = state self, reward = reward self, done_flag = done_flag self,
               env = e1,
               state_space =
                 [''pixels'' \<mapsto> ImageObservationSpace (shape pixels_spec) 255,
                  ''measurements'' \<mapsto>
                    VectorObservationSpace (sum_list (map entry_size (observation_spec sim e1)))
                      (concat (map entry_names (observation_spec sim e1)))],
               action_space =
                 BoxActionSpace \<lparr> box_shape = n, low = minimum (action_spec sim e1),
                                  high = maximum (action_spec sim e1) \<rparr>,
               pixels = None, measurements = None \<rparr> True = Inr w"
  using assms(4)
  by (simp add: init_def assms(1,2,3) measurements_loop_eq
      split: if_splits option.splits list.splits)

lemma ex_init:
  "init ex_sim ex_suite_load ex_pixels_Wrapper ex_reset_internal_state ex_environment =
     Inr ex_initialised"
  by (simp add: init_def ex_environment_def ex_suite_load_def ex_pixels_Wrapper_def
      ex_sim_def ex_observation_spec_def ex_reset_internal_state_def ex_initialised_def
      restart_environment_episode_def assign_last_result_def format_name_def digit_def upt_rec
      eval_nat_numeral)

lemma ex_reset_internal_state_spaces:
  assumes "ex_reset_internal_state w1 force = Inr w2"
  shows "action_space w2 = action_space w1" and "state_space w2 = state_space w1"
  using assms
  by (auto simp: ex_reset_internal_state_def restart_environment_episode_def
      assign_last_result_def split: prod.splits sum.splits)

text \<open>
  Claim C4. When \<^verbatim>\<open>__init__\<close> completes, and the base class method it calls last leaves the
  action space as it is, the action space is a BoxActionSpace whose shape is the first
  component of the shape of the simulator's action spec and whose low and high bounds are
  the spec's minimum and maximum.
\<close>

theorem init_action_space:
  assumes "split_str CHR '':'' (env_id self) = [domain_name, task_name]"
    and "suite_load domain_name task_name = Inr e0"
    and "pixels_Wrapper e0 False = Inr e1"
    and "init sim suite_load pixels_Wrapper reset_internal_state self = Inr w"
    and "\<And>w1 w2. reset_internal_state w1 True = Inr w2 \<Longrightarrow> action_space w2 = action_space w1"
  shows "\<exists>n rest. shape (action_spec sim e1) = n # rest \<and>
           action_space w =
             BoxActionSpace \<lparr> box_shape = n, low = minimum (action_spec sim e1),
                              high = maximum (action_spec sim e1) \<rparr>"
proof -
  from init_returns [OF assms(1-4)] obtain pixels_spec :: array_spec and n :: nat and rest :: "nat list" where
    n: "shape (action_spec sim e1) = n # rest" and
    r: "reset_internal_state
             \<lparr> env_id = env_id self, seed = seed self, last_result = last_result self,
               state = state self, reward = reward self, done_flag = done_flag self,
               env = e1,
               state_space =
                 [''pixels'' \<mapsto> ImageObservationSpace (shape pixels_spec) 255,
                  ''measurements'' \<mapsto>
                    VectorObservationSpace (sum_list (map entry_size (observation_spec sim e1)))
                      (concat (map entry_names (observation_spec sim e1)))],
               action_space =
                 BoxActionSpace \<lparr> box_shape = n, low = minimum (action_spec sim e1),
                                  high = maximum (action_spec sim e1) \<rparr>,
               pixels = None, measurements = None \<rparr> True = Inr w"
    by blast
  from assms(5) [OF r] n show ?thesis by simp
qed

theorem init_action_space_witness:
  "init ex_sim ex_suite_load ex_pixels_Wrapper ex_reset_internal_state ex_environment =
     Inr ex_initialised \<and>
   action_space ex_initialised = BoxActionSpace \<lparr>box_shape = 1, low = [-1], high = [1]\<rparr>"
proof -
  have s: "split_str CHR '':'' (env_id ex_environment) = [''cartpole'', ''balance'']"
    by (simp add: ex_environment_def)
  have l: "ex_suite_load ''cartpole'' ''balance'' = Inr []"
    by (simp add: ex_suite_load_def)
  have p: "ex_pixels_Wrapper [] False = Inr []"
    by (simp add: ex_pixels_Wrapper_def)
  from init_action_space [OF s l p ex_init ex_reset_internal_state_spaces(1)]
  show ?thesis using ex_init by (simp add: ex_sim_def)
qed

text \<open>
  Claim C6. When \<^verbatim>\<open>__init__\<close> completes, and the base class method it calls last leaves the
  state space as it is, the pixels entry of the state space is an ImageObservationSpace with
  the shape of the pixels entry of the simulator's observation spec and high 255, and the
  measurements entry is a VectorObservationSpace whose names are, in the spec's order, the
  name of each scalar entry and one indexed name per component of each one-dimensional
  entry.
\<close>

theorem init_state_space:
  assumes "split_str CHR '':'' (env_id self) = [domain_name, task_name]"
    and "suite_load domain_name task_name = Inr e0"
    and "pixels_Wrapper e0 False = Inr e1"
    and "init sim suite_load pixels_Wrapper reset_internal_state self = Inr w"
    and "\<And>w1 w2. reset_internal_state w1 True = Inr w2 \<Longrightarrow> state_space w2 = state_space w1"
  shows "\<exists>pixels_spec.
           map_of (observation_spec sim e1) ''pixels'' = Some pixels_spec \<and>
           state_space w ''pixels'' = Some (ImageObservationSpace (shape pixels_spec) 255) \<and>
           state_space w ''measurements'' =
             Some (VectorObservationSpace
                     (sum_list (map entry_size (observation_spec sim e1)))
                     (concat (map entry_names (observation_spec sim e1))))"
proof -
  from init_returns [OF assms(1-4)] obtain pixels_spec :: array_spec and n :: nat and rest :: "nat list" where
    p: "map_of (observation_spec sim e1) ''pixels'' = Some pixels_spec" and
    r: "reset_internal_state
             \<lparr> env_id = env_id self, seed = seed self, last_result = last_result self,
               state = state self, reward = reward self, done_flag = done_flag self,
               env = e1,
               state_space =
                 [''pixels'' \<mapsto> ImageObservationSpace (shape pixels_spec) 255,
                  ''measurements'' \<mapsto>
                    VectorObservationSpace (sum_list (map entry_size (observation_spec sim e1)))
                      (concat (map entry_names (observation_spec sim e1)))],
               action_space =
                 BoxActionSpace \<lparr> box_shape = n, low = minimum (action_spec sim e1),
                                  high = maximum (action_spec sim e1) \<rparr>,
               pixels = None, measurements = None \<rparr> True = Inr w"
    by blast
  from assms(5) [OF r] p show ?thesis by simp
qed

theorem init_state_space_witness:
  "init ex_sim ex_suite_load ex_pixels_Wrapper ex_reset_internal_state ex_environment =
     Inr ex_initialised \<and>
   state_space ex_initialised ''pixels'' = Some (ImageObservationSpace [1, 2, 3] 255) \<and>
   state_space ex_initialised ''measurements'' =
     Some (VectorObservationSpace 2 [''position_0'', ''position_1''])"
proof -
  have s: "split_str CHR '':'' (env_id ex_environment) = [''cartpole'', ''balance'']"
    by (simp add: ex_environment_def)
  have l: "ex_suite_load ''cartpole'' ''balance'' = Inr []"
    by (simp add: ex_suite_load_def)
  have p: "ex_pixels_Wrapper [] False = Inr []"
    by (simp add: ex_pixels_Wrapper_def)
  from init_state_space [OF s l p ex_init ex_reset_internal_state_spaces(2)]
  show ?thesis using ex_init
    by (simp add: ex_sim_def ex_observation_spec_def format_name_def digit_def upt_rec)
qed

end
